theory Spec2Isabelle
  imports Main "HOL-Library.Word"
begin

unbundle bit_operations_syntax

section \<open>Data model (types.ts, constants.ts)\<close>

text \<open>
  A \<^verbatim>\<open>Uint8Array\<close> is a list of 8-bit words. A JavaScript \<^verbatim>\<open>number\<close> is modelled
  as an \<^typ>\<open>int\<close>: the development covers the integer-valued numbers (no fractions,
  NaN or infinities). A JavaScript string is a \<^typ>\<open>string\<close>.
\<close>

type_synonym byte = "8 word"

text \<open>
  \<^verbatim>\<open>interface InteroperableAddress { version; chainType; chainReference; address }\<close>
\<close>

record InteroperableAddress =
  version :: int
  chainType :: int
  chainReference :: "byte list"
  address :: "byte list"

text \<open>
  \<^verbatim>\<open>interface InteroperableName { address; chain; checksum }\<close>. Record fields are
  global names in HOL, so the fields of the second and third interface carry a prefix.
\<close>

record InteroperableName =
  name_address :: string
  name_chain :: string
  name_checksum :: string

text \<open>
  \<^verbatim>\<open>chainReference?: number | Uint8Array\<close> and \<^verbatim>\<open>address?: string | Uint8Array\<close>:
  the unions are datatypes, an absent (undefined) field is \<^term>\<open>None\<close>.
\<close>

datatype chainReference_input = RefNumber int | RefBytes "byte list"

datatype address_input = AddrString string | AddrBytes "byte list"

record CreateInteroperableAddressParams =
  params_chainType :: int
  params_chainReference :: "chainReference_input option"
  params_address :: "address_input option"

text \<open>
  What a \<^verbatim>\<open>throw\<close> carries: \<^verbatim>\<open>new Error(message)\<close> of encoder.ts, or the error of
  the external hex decoder (its message text is not modelled).
\<close>

datatype js_error = Error string | HexDecodeError

definition VERSION_1 :: int where
  "VERSION_1 = 0x0001"

section \<open>Byte utilities (utils.ts)\<close>

subsection \<open>JavaScript's 32-bit operators\<close>

text \<open>
  \<^verbatim>\<open>a & b\<close> and \<^verbatim>\<open>a >> k\<close> convert their operands with ToInt32 (the integer modulo
  \<open>2^32\<close>, read as two's complement) and give a signed 32-bit result; \<^verbatim>\<open>>>\<close> shifts
  by \<open>k mod 32\<close> and keeps the sign.
\<close>

definition js_and :: "int \<Rightarrow> int \<Rightarrow> int" where
  "js_and a b = sint ((word_of_int a :: 32 word) AND word_of_int b)"

definition js_shr :: "int \<Rightarrow> nat \<Rightarrow> int" where
  "js_shr a k = sint (signed_drop_bit (k mod 32) (word_of_int a :: 32 word))"

subsection \<open>numberToBytes\<close>

text \<open>
  \<^verbatim>\<open>
  const bytes = new Uint8Array(length);
  for (let i = length - 1; i >= 0; i--) { bytes[i] = num & 0xff; num = num >> 8; }
  return bytes;
  \<close>
  The loop counter \<open>Suc i\<close> stands for the source's index \<open>i\<close>; a store into a
  \<^verbatim>\<open>Uint8Array\<close> keeps the value modulo 256.
\<close>

fun numberToBytes_loop :: "nat \<Rightarrow> int \<Rightarrow> byte list \<Rightarrow> byte list" where
  "numberToBytes_loop 0 num bytes = bytes"
| "numberToBytes_loop (Suc i) num bytes =
     numberToBytes_loop i (js_shr num 8) (bytes[i := word_of_int (js_and num 0xff)])"

definition numberToBytes :: "int \<Rightarrow> nat \<Rightarrow> byte list" where
  "numberToBytes num len = numberToBytes_loop len num (replicate len 0)"

subsection \<open>numberToMinBytes\<close>

text \<open>
  Modelled from the spec: \<^verbatim>\<open>numberToMinBytes\<close> of utils.ts, which encoder.ts imports
  and whose body is not among the sources. Spec 4.1: it "encodes a non-negative integer
  into the minimum number of big-endian bytes that represents it without leading zero
  bytes, except that num = 0 still encodes to a length-0 (empty) byte sequence". The spec
  speaks of non-negative integers only; below 0 the model gives the empty sequence, and
  nothing proved here rests on that.
\<close>

function numberToMinBytes :: "int \<Rightarrow> byte list" where
  "numberToMinBytes num =
     (if num \<le> 0 then [] else numberToMinBytes (num div 256) @ [word_of_int (num mod 256)])"
  by pat_completeness auto
termination
  by (relation "measure nat") auto

declare numberToMinBytes.simps [simp del]

subsection \<open>The external hex codec and hash\<close>

text \<open>
  Modelled from the spec: \<^verbatim>\<open>bytesToHex\<close> and \<^verbatim>\<open>hexToBytes\<close> of the package
  @noble/hashes/utils, which utils.ts imports as \<^verbatim>\<open>nobleToHex\<close> and \<^verbatim>\<open>nobleFromHex\<close>;
  they are not part of the repository. The encoder writes two lower-case hex digits per
  byte; the decoder accepts hex digits of either case and fails on a string of odd length
  or with a character that is no hex digit (spec 4.1 and 6).
\<close>

definition hexDigit :: "nat \<Rightarrow> char" where
  "hexDigit n = (if n < 10 then char_of (48 + n) else char_of (87 + n))"

definition nobleToHex :: "byte list \<Rightarrow> string" where
  "nobleToHex bytes = concat (map (\<lambda>b. [hexDigit (unat b div 16), hexDigit (unat b mod 16)]) bytes)"

definition asciiToBase16 :: "char \<Rightarrow> nat option" where
  "asciiToBase16 ch =
     (let c = (of_char ch :: nat) in
      if 48 \<le> c \<and> c \<le> 57 then Some (c - 48)
      else if 65 \<le> c \<and> c \<le> 70 then Some (c - 55)
      else if 97 \<le> c \<and> c \<le> 102 then Some (c - 87)
      else None)"

fun nobleFromHex_loop :: "string \<Rightarrow> js_error + byte list" where
  "nobleFromHex_loop [] = Inr []"
| "nobleFromHex_loop [c] = Inl HexDecodeError"
| "nobleFromHex_loop (c1 # c2 # rest) =
     (case (asciiToBase16 c1, asciiToBase16 c2) of
        (Some n1, Some n2) \<Rightarrow>
          (case nobleFromHex_loop rest of
             Inl e \<Rightarrow> Inl e
           | Inr bs \<Rightarrow> Inr (word_of_nat (n1 * 16 + n2) # bs))
      | _ \<Rightarrow> Inl HexDecodeError)"

definition nobleFromHex :: "string \<Rightarrow> js_error + byte list" where
  "nobleFromHex hex =
     (if odd (length hex) then Inl HexDecodeError else nobleFromHex_loop hex)"

text \<open>
  \<^verbatim>\<open>String.prototype.toUpperCase\<close>, on the 8-bit characters of \<^typ>\<open>string\<close>: the
  letters a to z become A to Z. (The source applies it to hex digits only.)
\<close>

definition toUpperChar :: "char \<Rightarrow> char" where
  "toUpperChar ch =
     (let c = (of_char ch :: nat) in if 97 \<le> c \<and> c \<le> 122 then char_of (c - 32) else ch)"

definition toUpperCase :: "string \<Rightarrow> string" where
  "toUpperCase s = map toUpperChar s"

definition startsWith :: "string \<Rightarrow> string \<Rightarrow> bool" where
  "startsWith s p = (take (length p) s = p)"

subsection \<open>hexToBytes, bytesToHex, concatBytes\<close>

text \<open>
  \<^verbatim>\<open>
  const cleanHex = hex.startsWith('0x') || hex.startsWith('0X') ? hex.slice(2) : hex;
  return nobleFromHex(cleanHex);
  \<close>
\<close>

definition hexToBytes :: "string \<Rightarrow> js_error + byte list" where
  "hexToBytes hex =
     (let cleanHex = (if startsWith hex ''0x'' \<or> startsWith hex ''0X'' then drop 2 hex else hex)
      in nobleFromHex cleanHex)"

text \<open>
  \<^verbatim>\<open>
  function bytesToHex(bytes, prefix = true) {
    const hex = nobleToHex(bytes).toUpperCase();
    return prefix ? '0x' + hex : hex;
  }
  \<close>
  The second argument is optional: \<^term>\<open>None\<close> is a call that leaves it out.
\<close>

definition bytesToHex :: "byte list \<Rightarrow> bool option \<Rightarrow> string" where
  "bytesToHex bytes prefix_arg =
     (let prefix = (case prefix_arg of None \<Rightarrow> True | Some p \<Rightarrow> p);
          hex = toUpperCase (nobleToHex bytes)
      in if prefix then ''0x'' @ hex else hex)"

definition concatBytes :: "byte list list \<Rightarrow> byte list" where
  "concatBytes arrays = concat arrays"

section \<open>Encoder (encoder.ts)\<close>

text \<open>
  The hash \<^verbatim>\<open>keccak256\<close> wraps the external \<^verbatim>\<open>keccak_256\<close>; it is a parameter
  \<open>keccak256\<close> of the functions that call it.
\<close>

definition encodeInteroperableAddress :: "InteroperableAddress \<Rightarrow> byte list" where
  "encodeInteroperableAddress interopAddress =
     (let version_bytes = numberToBytes (version interopAddress) 2;
          chainType_bytes = numberToBytes (chainType interopAddress) 2;
          chainReferenceLength =
            numberToBytes (int (length (chainReference interopAddress))) 1;
          addressLength = numberToBytes (int (length (address interopAddress))) 1
      in concatBytes
           [version_bytes, chainType_bytes, chainReferenceLength,
            chainReference interopAddress, addressLength, address interopAddress])"

definition calculateChecksum ::
  "(byte list \<Rightarrow> byte list) \<Rightarrow> InteroperableAddress \<Rightarrow> string" where
  "calculateChecksum keccak256 interopAddress =
     (let chainType_bytes = numberToBytes (chainType interopAddress) 2;
          chainReferenceLength =
            numberToBytes (int (length (chainReference interopAddress))) 1;
          addressLength = numberToBytes (int (length (address interopAddress))) 1;
          checksumInput =
            concatBytes
              [chainType_bytes, chainReferenceLength, chainReference interopAddress,
               addressLength, address interopAddress];
          hash = keccak256 checksumInput;
          checksum = take 4 hash
      in bytesToHex checksum (Some False))"

definition toInteroperableName ::
  "(byte list \<Rightarrow> byte list) \<Rightarrow> InteroperableAddress \<Rightarrow> string \<Rightarrow> string \<Rightarrow> InteroperableName" where
  "toInteroperableName keccak256 interopAddress chainString addressString =
     (let checksum = calculateChecksum keccak256 interopAddress
      in \<lparr>name_address = addressString, name_chain = chainString, name_checksum = checksum\<rparr>)"

definition formatInteroperableName :: "InteroperableName \<Rightarrow> string" where
  "formatInteroperableName name =
     name_address name @ ''@'' @ name_chain name @ ''#'' @ name_checksum name"

text \<open>
  \<^verbatim>\<open>createInteroperableAddress\<close>: the two fields are normalised first (a hex string
  that does not decode throws there), then the four checks run in the source's order.
\<close>

definition createInteroperableAddress ::
  "CreateInteroperableAddressParams \<Rightarrow> js_error + InteroperableAddress" where
  "createInteroperableAddress params =
     (let chainType_v = params_chainType params;
          chainReference_v =
            (case params_chainReference params of
               None \<Rightarrow> []
             | Some (RefNumber n) \<Rightarrow> numberToMinBytes n
             | Some (RefBytes b) \<Rightarrow> b)
      in case (case params_address params of
                 None \<Rightarrow> Inr []
               | Some (AddrString s) \<Rightarrow> hexToBytes s
               | Some (AddrBytes b) \<Rightarrow> Inr b) of
           Inl e \<Rightarrow> Inl e
         | Inr address_v \<Rightarrow>
             if length chainReference_v = 0 \<and> length address_v = 0 then
               Inl (Error ''At least one of chainReference or address must be provided'')
             else if length chainReference_v > 255 then
               Inl (Error ''Chain reference length cannot exceed 255 bytes'')
             else if length address_v > 255 then
               Inl (Error ''Address length cannot exceed 255 bytes'')
             else if chainType_v < 0 \<or> chainType_v > 0xffff then
               Inl (Error ''Chain type must be a 2-byte value (0-65535)'')
             else
               Inr \<lparr>version = VERSION_1, chainType = chainType_v,
                    chainReference = chainReference_v, address = address_v\<rparr>)"

definition createAndEncode :: "CreateInteroperableAddressParams \<Rightarrow> js_error + byte list" where
  "createAndEncode params =
     (case createInteroperableAddress params of
        Inl e \<Rightarrow> Inl e
      | Inr interopAddress \<Rightarrow> Inr (encodeInteroperableAddress interopAddress))"

section \<open>The specification's vocabulary\<close>

text \<open>
  The value of a byte sequence read big-endian, and an integer written as two bytes,
  high byte first (each byte taken modulo 256).
\<close>

definition be_value :: "byte list \<Rightarrow> nat" where
  "be_value bs = foldl (\<lambda>acc b. acc * 256 + unat b) 0 bs"

definition uint16_be :: "int \<Rightarrow> byte list" where
  "uint16_be n = [word_of_int (n div 256), word_of_int n]"

text \<open>
  The normalisation rules of spec 4.2, as the spec words them. Chain reference: absent
  gives the empty sequence, a number its minimal bytes, raw bytes themselves. Address:
  absent gives the empty sequence, a string its hex decoding, raw bytes themselves.
\<close>

fun norm_chainReference :: "chainReference_input option \<Rightarrow> byte list" where
  "norm_chainReference None = []"
| "norm_chainReference (Some (RefNumber n)) = numberToMinBytes n"
| "norm_chainReference (Some (RefBytes b)) = b"

fun norm_address :: "address_input option \<Rightarrow> js_error + byte list" where
  "norm_address None = Inr []"
| "norm_address (Some (AddrString s)) = hexToBytes s"
| "norm_address (Some (AddrBytes b)) = Inr b"

text \<open>
  The four validation checks of spec 4.2 in their order: the number of the first check
  that fails on the normalised fields, if any.
\<close>

definition first_failing_check :: "byte list \<Rightarrow> byte list \<Rightarrow> int \<Rightarrow> nat option" where
  "first_failing_check cr ad ct =
     (if cr = [] \<and> ad = [] then Some 1
      else if length cr > 255 then Some 2
      else if length ad > 255 then Some 3
      else if ct < 0 \<or> ct > 65535 then Some 4
      else None)"

text \<open>
  The message of the \<^verbatim>\<open>Error\<close> that encoder.ts throws at each of its four checks, by
  the number of the check.
\<close>

definition validation_message :: "nat \<Rightarrow> string" where
  "validation_message k =
     (if k = 1 then ''At least one of chainReference or address must be provided''
      else if k = 2 then ''Chain reference length cannot exceed 255 bytes''
      else if k = 3 then ''Address length cannot exceed 255 bytes''
      else ''Chain type must be a 2-byte value (0-65535)'')"

section \<open>Naming\<close>

text \<open>
  C8. Formatting the name built from an address and two caller-supplied strings gives
  the address string, \<open>@\<close>, the chain string, \<open>#\<close> and the checksum of the address,
  with both strings unchanged; with an empty address string the result starts with \<open>@\<close>.
\<close>

theorem formatInteroperableName_toInteroperableName:
  "formatInteroperableName (toInteroperableName keccak256 a chainString addressString)
     = addressString @ ''@'' @ chainString @ ''#'' @ calculateChecksum keccak256 a
   \<and> formatInteroperableName (toInteroperableName keccak256 a chainString [])
     = CHR ''@'' # chainString @ ''#'' @ calculateChecksum keccak256 a"
  by (simp add: formatInteroperableName_def toInteroperableName_def)

section \<open>Fixed-width encoding\<close>

lemma word255_mask: "(255 :: 32 word) = mask 8"
  by (simp add: mask_eq_exp_minus_1)

lemma store_and: "(word_of_int (js_and n 0xff) :: byte) = word_of_int n"
  unfolding js_and_def
  by (rule bit_word_eqI) (auto simp: word255_mask bit_simps)

lemma store_shr: "(word_of_int (js_shr n 8) :: byte) = word_of_int (n div 256)"
proof -
  have "n div 256 = drop_bit 8 n" by (simp add: drop_bit_eq_div)
  then show ?thesis
    unfolding js_shr_def
    by (intro bit_word_eqI) (auto simp: bit_simps)
qed

lemma numberToBytes_1: "numberToBytes n (Suc 0) = [word_of_int n]"
  by (simp add: numberToBytes_def store_and)

lemma numberToBytes_2: "numberToBytes n 2 = uint16_be n"
  by (simp add: numberToBytes_def store_and store_shr numeral_2_eq_2 uint16_be_def)

lemma unat_length_byte: "unat (word_of_nat n :: byte) = n mod 256"
  by (simp add: unat_of_nat)

lemma word_of_nat_mod_256: "(word_of_nat (n mod 256) :: byte) = word_of_nat n"
  by (simp add: word_of_nat_eq_iff take_bit_eq_mod)

lemma be_value_Nil: "be_value [] = 0"
  by (simp add: be_value_def)

lemma be_value_snoc: "be_value (bs @ [b]) = be_value bs * 256 + unat b"
  by (simp add: be_value_def)

text \<open>Within the 2-byte range, \<^const>\<open>uint16_be\<close> is the big-endian representation.\<close>

lemma be_value_uint16_be:
  assumes "0 \<le> n" and "n \<le> 65535"
  shows "int (be_value (uint16_be n)) = n"
proof -
  have "int (be_value (uint16_be n)) =
          uint (word_of_int (n div 256) :: byte) * 256 + uint (word_of_int n :: byte)"
    by (simp add: be_value_def uint16_be_def)
  also have "\<dots> = (n div 256) mod 256 * 256 + n mod 256"
    by (simp add: uint_word_of_int)
  also have "\<dots> = n"
    using assms by simp
  finally show ?thesis .
qed

section \<open>The binary layout\<close>

lemma encode_layout:
  "encodeInteroperableAddress a =
     uint16_be (version a) @ uint16_be (chainType a)
     @ [word_of_nat (length (chainReference a))] @ chainReference a
     @ [word_of_nat (length (address a))] @ address a"
  by (simp add: encodeInteroperableAddress_def concatBytes_def numberToBytes_1 numberToBytes_2)

text \<open>
  C1. For an address whose chain reference and address are at most 255 bytes long, the
  encoding is the version as two big-endian bytes, the chain type as two big-endian
  bytes, the length of the chain reference as one byte, the chain reference, the length
  of the address as one byte and the address, in this order; both length bytes hold
  the lengths themselves, and the output is \<open>6 + chainReference.length + address.length\<close>
  bytes long. For a version or chain type within 0 to 65535 the two bytes read
  big-endian give the number back.
\<close>

theorem encodeInteroperableAddress_layout:
  assumes "length (chainReference a) \<le> 255" and "length (address a) \<le> 255"
  shows "encodeInteroperableAddress a =
       uint16_be (version a) @ uint16_be (chainType a)
       @ [word_of_nat (length (chainReference a))] @ chainReference a
       @ [word_of_nat (length (address a))] @ address a
     \<and> unat (word_of_nat (length (chainReference a)) :: byte) = length (chainReference a)
     \<and> unat (word_of_nat (length (address a)) :: byte) = length (address a)
     \<and> length (encodeInteroperableAddress a)
         = 6 + length (chainReference a) + length (address a)
     \<and> (0 \<le> version a \<and> version a \<le> 65535
          \<longrightarrow> int (be_value (uint16_be (version a))) = version a)
     \<and> (0 \<le> chainType a \<and> chainType a \<le> 65535
          \<longrightarrow> int (be_value (uint16_be (chainType a))) = chainType a)"
  using assms
  by (simp add: encode_layout unat_length_byte be_value_uint16_be) (simp add: uint16_be_def)

theorem encodeInteroperableAddress_layout_witness:
  "length (chainReference \<lparr>version = 1, chainType = 2, chainReference = [7], address = [0xD8, 0xDA]\<rparr>) \<le> 255
   \<and> length (address \<lparr>version = 1, chainType = 2, chainReference = [7], address = [0xD8, 0xDA]\<rparr>) \<le> 255
   \<and> encodeInteroperableAddress
        \<lparr>version = 1, chainType = 2, chainReference = [7], address = [0xD8, 0xDA]\<rparr>
      = [0, 1, 0, 2, 1, 7, 2, 0xD8, 0xDA]
   \<and> length (encodeInteroperableAddress
        \<lparr>version = 1, chainType = 2, chainReference = [7], address = [0xD8, 0xDA]\<rparr>) = 9
   \<and> int (be_value (uint16_be 2)) = 2"
  using encodeInteroperableAddress_layout
    [of "\<lparr>version = 1, chainType = 2, chainReference = [7], address = [0xD8, 0xDA]\<rparr>"]
  by (simp add: uint16_be_def)

text \<open>
  C9. The encoder has no failing branch: on every address value, valid or not, it
  returns the layout above, where each length byte is the length modulo 256. An address
  field of 256 bytes is encoded with a length byte 0 followed by all 256 bytes.
\<close>

theorem encodeInteroperableAddress_total:
  "encodeInteroperableAddress a =
       uint16_be (version a) @ uint16_be (chainType a)
       @ [word_of_nat (length (chainReference a) mod 256)] @ chainReference a
       @ [word_of_nat (length (address a) mod 256)] @ address a
   \<and> unat (encodeInteroperableAddress a ! 4) = length (chainReference a) mod 256
   \<and> unat (encodeInteroperableAddress a ! (5 + length (chainReference a)))
       = length (address a) mod 256
   \<and> drop (6 + length (chainReference a)) (encodeInteroperableAddress a) = address a
   \<and> encodeInteroperableAddress
        \<lparr>version = 1, chainType = 0, chainReference = [], address = replicate 256 0xAB\<rparr>
      = [0, 1, 0, 0, 0, 0] @ replicate 256 0xAB"
proof -
  let ?cr = "chainReference a" and ?ad = "address a"
  let ?pre = "uint16_be (version a) @ uint16_be (chainType a) @ [word_of_nat (length ?cr)] @ ?cr
              @ [word_of_nat (length ?ad) :: byte]"
  have enc: "encodeInteroperableAddress a = ?pre @ ?ad"
    by (simp add: encode_layout)
  have len: "length ?pre = 6 + length ?cr"
    by (simp add: uint16_be_def)
  have "encodeInteroperableAddress a =
       uint16_be (version a) @ uint16_be (chainType a)
       @ [word_of_nat (length ?cr mod 256)] @ ?cr @ [word_of_nat (length ?ad mod 256)] @ ?ad"
    by (simp add: encode_layout word_of_nat_mod_256)
  moreover have "unat (encodeInteroperableAddress a ! 4) = length ?cr mod 256"
    by (simp add: encode_layout uint16_be_def unat_length_byte)
  moreover have "unat (encodeInteroperableAddress a ! (5 + length ?cr)) = length ?ad mod 256"
    by (simp add: encode_layout uint16_be_def unat_length_byte nth_append)
  moreover have "drop (6 + length ?cr) (encodeInteroperableAddress a) = ?ad"
    unfolding enc len [symmetric] by simp
  moreover have "encodeInteroperableAddress
        \<lparr>version = 1, chainType = 0, chainReference = [], address = replicate 256 0xAB\<rparr>
      = [0, 1, 0, 0, 0, 0] @ replicate 256 0xAB"
    by (simp add: encode_layout uint16_be_def)
  ultimately show ?thesis by blast
qed

section \<open>Minimal-width encoding\<close>

lemma unat_byte_less: "unat (b :: byte) < 256"
proof -
  have "unat b < 2 ^ LENGTH(8)" by (rule unsigned_less)
  then show ?thesis by simp
qed

lemma be_value_less: "be_value bs < 256 ^ length bs"
proof (induction bs rule: rev_induct)
  case Nil
  show ?case by (simp add: be_value_Nil)
next
  case (snoc b bs)
  have "be_value bs * 256 + unat b < (be_value bs + 1) * 256"
    using unat_byte_less [of b] by simp
  also have "\<dots> \<le> 256 ^ length bs * 256"
    using snoc.IH by (intro mult_le_mono1) simp
  finally show ?case by (simp add: be_value_snoc)
qed

lemma numberToMinBytes_nonpos: "n \<le> 0 \<Longrightarrow> numberToMinBytes n = []"
  by (subst numberToMinBytes.simps) simp

lemma numberToMinBytes_pos:
  "0 < n \<Longrightarrow> numberToMinBytes n = numberToMinBytes (n div 256) @ [word_of_int (n mod 256)]"
  by (subst numberToMinBytes.simps) simp

lemma unat_low_byte: "unat (word_of_int (n mod 256) :: byte) = nat (n mod 256)"
  by (simp add: unat_eq_nat_uint uint_word_of_int)

lemma be_value_numberToMinBytes: "0 \<le> n \<Longrightarrow> int (be_value (numberToMinBytes n)) = n"
proof (induction n rule: numberToMinBytes.induct)
  case (1 num)
  show ?case
  proof (cases "num \<le> 0")
    case True
    with 1 show ?thesis by (simp add: be_value_Nil numberToMinBytes_nonpos)
  next
    case False
    then have IH: "int (be_value (numberToMinBytes (num div 256))) = num div 256"
      using 1 by simp
    have "int (be_value (numberToMinBytes num)) = (num div 256) * 256 + num mod 256"
      using False by (simp add: be_value_snoc unat_low_byte IH numberToMinBytes_pos)
    then show ?thesis by simp
  qed
qed

lemma length_numberToMinBytes_pos: "0 < n \<Longrightarrow> 256 ^ (length (numberToMinBytes n) - 1) \<le> n"
proof (induction n rule: numberToMinBytes.induct)
  case (1 num)
  show ?case
  proof (cases "num div 256 \<le> 0")
    case True
    then have "numberToMinBytes num = [word_of_int (num mod 256)]"
      using "1.prems" by (simp add: numberToMinBytes_pos numberToMinBytes_nonpos)
    then show ?thesis using "1.prems" by simp
  next
    case False
    then have pos: "0 < num div 256" by simp
    then have IH: "256 ^ (length (numberToMinBytes (num div 256)) - 1) \<le> num div 256"
      using 1 by simp
    have ne: "numberToMinBytes (num div 256) \<noteq> []"
      using pos by (simp add: numberToMinBytes_pos)
    have len: "length (numberToMinBytes num) - 1 = Suc (length (numberToMinBytes (num div 256)) - 1)"
      using "1.prems" ne by (simp add: numberToMinBytes_pos)
    have "(256::int) ^ (length (numberToMinBytes num) - 1) = 256 * 256 ^ (length (numberToMinBytes (num div 256)) - 1)"
      unfolding len by simp
    also have "\<dots> \<le> 256 * (num div 256)"
      using IH by simp
    also have "\<dots> \<le> num"
      by simp
    finally show ?thesis .
  qed
qed

lemma hd_numberToMinBytes: "0 < n \<Longrightarrow> hd (numberToMinBytes n) \<noteq> 0"
proof (induction n rule: numberToMinBytes.induct)
  case (1 num)
  show ?case
  proof (cases "num div 256 \<le> 0")
    case True
    then have small: "num < 256" using "1.prems" by simp
    have eq: "numberToMinBytes num = [word_of_int (num mod 256)]"
      using "1.prems" True by (simp add: numberToMinBytes_pos numberToMinBytes_nonpos)
    have "unat (word_of_int (num mod 256) :: byte) = nat (num mod 256)"
      by (rule unat_low_byte)
    moreover have "num mod 256 = num"
      using small "1.prems" by simp
    ultimately have "0 < unat (word_of_int (num mod 256) :: byte)"
      using "1.prems" by simp
    then have "(word_of_int (num mod 256) :: byte) \<noteq> 0"
      by auto
    then show ?thesis by (simp add: eq)
  next
    case False
    then have pos: "0 < num div 256" by simp
    then have IH: "hd (numberToMinBytes (num div 256)) \<noteq> 0"
      using 1 by simp
    have ne: "numberToMinBytes (num div 256) \<noteq> []"
      using pos by (simp add: numberToMinBytes_pos)
    have "hd (numberToMinBytes num) = hd (numberToMinBytes (num div 256))"
      using "1.prems" ne by (simp add: numberToMinBytes_pos)
    then show ?thesis using IH by simp
  qed
qed


lemma numberToMinBytes_shortest:
  assumes "0 \<le> n" and "int (be_value bs) = n"
  shows "length (numberToMinBytes n) \<le> length bs"
proof (cases "n = 0")
  case True
  then show ?thesis by (simp add: numberToMinBytes_nonpos)
next
  case False
  with assms have pos: "0 < n" by simp
  have "(256::int) ^ (length (numberToMinBytes n) - 1) \<le> n"
    by (rule length_numberToMinBytes_pos [OF pos])
  also have "n < int (256 ^ length bs)"
    using be_value_less [of bs] assms(2) by (simp del: of_nat_power)
  finally have "(256::int) ^ (length (numberToMinBytes n) - 1) < 256 ^ length bs"
    by simp
  then have "length (numberToMinBytes n) - 1 < length bs"
    by (simp add: power_strict_increasing_iff)
  then show ?thesis by simp
qed

lemma numberToMinBytes_examples:
  "numberToMinBytes 0 = []" "numberToMinBytes 1 = [0x01]"
  "numberToMinBytes 137 = [0x89]" "numberToMinBytes 42161 = [0xA4, 0xB1]"
  by (simp_all add: numberToMinBytes_pos numberToMinBytes_nonpos)

lemma numberToMinBytes_no_leading_zero:
  assumes "0 \<le> n"
  shows "take 1 (numberToMinBytes n) \<noteq> [0]"
proof (cases "n = 0")
  case True
  then show ?thesis by (simp add: numberToMinBytes_nonpos)
next
  case False
  with assms have pos: "0 < n" by simp
  then have "numberToMinBytes n \<noteq> []"
    by (simp add: numberToMinBytes_pos)
  then have "take 1 (numberToMinBytes n) = [hd (numberToMinBytes n)]"
    by (cases "numberToMinBytes n") simp_all
  then show ?thesis using hd_numberToMinBytes [OF pos] by simp
qed

text \<open>
  C5. For a non-negative integer \<open>n\<close>, \<^const>\<open>numberToMinBytes\<close> gives a byte sequence
  whose big-endian value is \<open>n\<close>, that does not start with a zero byte, and that is no
  longer than any byte sequence with the value \<open>n\<close>; 0 gives the empty sequence, 1 gives
  \<open>[0x01]\<close>, 137 gives \<open>[0x89]\<close> and 42161 gives \<open>[0xA4, 0xB1]\<close>.
\<close>

theorem numberToMinBytes_minimal:
  assumes "0 \<le> n"
  shows "int (be_value (numberToMinBytes n)) = n
     \<and> take 1 (numberToMinBytes n) \<noteq> [0]
     \<and> (\<forall>bs. int (be_value bs) = n \<longrightarrow> length (numberToMinBytes n) \<le> length bs)
     \<and> numberToMinBytes 0 = []
     \<and> numberToMinBytes 1 = [0x01]
     \<and> numberToMinBytes 137 = [0x89]
     \<and> numberToMinBytes 42161 = [0xA4, 0xB1]"
proof (intro conjI allI impI)
  show "int (be_value (numberToMinBytes n)) = n"
    by (rule be_value_numberToMinBytes [OF assms])
  show "take 1 (numberToMinBytes n) \<noteq> [0]"
    by (rule numberToMinBytes_no_leading_zero [OF assms])
  show "length (numberToMinBytes n) \<le> length bs" if "int (be_value bs) = n" for bs
    by (rule numberToMinBytes_shortest [OF assms that])
qed (rule numberToMinBytes_examples)+

theorem numberToMinBytes_minimal_witness:
  "(0::int) \<le> 42161
   \<and> int (be_value (numberToMinBytes 42161)) = 42161
   \<and> take 1 (numberToMinBytes 42161) \<noteq> [0]
   \<and> int (be_value [0, 0xA4, 0xB1]) = 42161
   \<and> length (numberToMinBytes 42161) \<le> length [0, 0xA4, 0xB1 :: byte]"
proof -
  have v: "int (be_value [0, 0xA4, 0xB1]) = 42161"
    by (simp add: be_value_def)
  have h: "(0::int) \<le> 42161" by simp
  note t = numberToMinBytes_minimal [OF h]
  from t have a: "int (be_value (numberToMinBytes 42161)) = 42161" by (rule conjunct1)
  from t have b: "take 1 (numberToMinBytes 42161) \<noteq> [0]" by (rule conjunct2 [THEN conjunct1])
  from t have allbs:
    "\<forall>bs. int (be_value bs) = 42161 \<longrightarrow> length (numberToMinBytes 42161) \<le> length bs"
    by (rule conjunct2 [THEN conjunct2, THEN conjunct1])
  have c: "length (numberToMinBytes 42161) \<le> length [0, 0xA4, 0xB1 :: byte]"
    by (rule allbs [rule_format, OF v])
  from h a b v c show ?thesis by (intro conjI)
qed

section \<open>Hex strings\<close>

lemma asciiToBase16_hexDigit: "n < 16 \<Longrightarrow> asciiToBase16 (hexDigit n) = Some n"
  by (auto simp: asciiToBase16_def hexDigit_def Let_def)

lemma asciiToBase16_toUpperChar: "asciiToBase16 (toUpperChar c) = asciiToBase16 c"
  by (auto simp: asciiToBase16_def toUpperChar_def Let_def)

lemma high_nibble_less: "unat (b :: byte) div 16 < 16"
  using unat_byte_less [of b] by simp

lemma nibble_cases:
  "(n::nat) < 16 \<Longrightarrow> n \<in> set [0, 1, 2, 3, 4, 5, 6, 7, 8, 9, 10, 11, 12, 13, 14, 15]"
  by (simp only: set_simps insert_iff empty_iff) arith

lemma upper_hexDigit_in: "n < 16 \<Longrightarrow> toUpperChar (hexDigit n) \<in> set ''0123456789ABCDEF''"
  by (drule nibble_cases, simp only: set_simps insert_iff empty_iff)
     (elim disjE FalseE; hypsubst; code_simp)

lemma set_upper_nobleToHex: "set (toUpperCase (nobleToHex bs)) \<subseteq> set ''0123456789ABCDEF''"
proof (induction bs)
  case Nil
  show ?case by (simp add: nobleToHex_def toUpperCase_def)
next
  case (Cons b bs)
  have "toUpperChar (hexDigit (unat b div 16)) \<in> set ''0123456789ABCDEF''"
    by (rule upper_hexDigit_in) (rule high_nibble_less)
  moreover have "toUpperChar (hexDigit (unat b mod 16)) \<in> set ''0123456789ABCDEF''"
    by (rule upper_hexDigit_in) simp
  ultimately show ?case using Cons.IH
    by (simp add: nobleToHex_def toUpperCase_def del: set_simps) (simp)
qed

lemma length_nobleToHex: "length (nobleToHex bs) = 2 * length bs"
  by (induction bs) (simp_all add: nobleToHex_def)

lemma nobleFromHex_loop_upper: "nobleFromHex_loop (toUpperCase s) = nobleFromHex_loop s"
  unfolding toUpperCase_def
  by (induction s rule: induct_list012)
     (simp_all add: asciiToBase16_toUpperChar split: option.splits)

lemma nobleFromHex_upper: "nobleFromHex (toUpperCase s) = nobleFromHex s"
  by (simp add: nobleFromHex_def nobleFromHex_loop_upper) (simp add: toUpperCase_def)

lemma nobleFromHex_loop_nobleToHex: "nobleFromHex_loop (nobleToHex bs) = Inr bs"
  by (induction bs) (simp_all add: nobleToHex_def asciiToBase16_hexDigit high_nibble_less)

lemma nobleFromHex_nobleToHex: "nobleFromHex (nobleToHex bs) = Inr bs"
  by (simp add: nobleFromHex_def nobleFromHex_loop_nobleToHex length_nobleToHex)

lemma startsWith_two:
  "startsWith [] [a, b] = False"
  "startsWith [c] [a, b] = False"
  "startsWith (c1 # c2 # r) [a, b] = (c1 = a \<and> c2 = b)"
  by (simp_all add: startsWith_def)

lemma of_char_toUpperChar:
  "(of_char (toUpperChar c) :: nat) =
     (if 97 \<le> (of_char c :: nat) \<and> (of_char c :: nat) \<le> 122 then of_char c - 32 else of_char c)"
  by (auto simp add: toUpperChar_def Let_def)

lemma char_eq_code: "c = d \<longleftrightarrow> (of_char c :: nat) = of_char d"
  by simp

lemma toUpperChar_0: "toUpperChar c = CHR ''0'' \<longleftrightarrow> c = CHR ''0''"
  unfolding char_eq_code [of _ "CHR ''0''"] of_char_toUpperChar by auto

lemma toUpperChar_x: "toUpperChar c \<noteq> CHR ''x''"
  unfolding char_eq_code [of _ "CHR ''x''"] of_char_toUpperChar by auto

lemma toUpperChar_X: "toUpperChar c = CHR ''X'' \<longleftrightarrow> c = CHR ''x'' \<or> c = CHR ''X''"
  unfolding char_eq_code [of _ "CHR ''x''"] char_eq_code [of _ "CHR ''X''"] of_char_toUpperChar by auto

lemma hexToBytes_upper: "hexToBytes (toUpperCase s) = hexToBytes s"
proof (cases s rule: nobleFromHex_loop.cases)
  case 1
  then show ?thesis by (simp add: toUpperCase_def)
next
  case (2 c)
  then show ?thesis
    using nobleFromHex_upper [of "[c]"]
    by (simp add: hexToBytes_def startsWith_two toUpperCase_def)
next
  case (3 c1 c2 rest)
  then show ?thesis
    using nobleFromHex_upper [of rest] nobleFromHex_upper [of s]
    by (auto simp add: hexToBytes_def startsWith_two toUpperCase_def toUpperChar_0 toUpperChar_x toUpperChar_X)
qed

lemma hexDigit_not_x: "n < 16 \<Longrightarrow> hexDigit n \<noteq> CHR ''x'' \<and> hexDigit n \<noteq> CHR ''X''"
  unfolding char_eq_code [of _ "CHR ''x''"] char_eq_code [of _ "CHR ''X''"]
  by (auto simp: hexDigit_def)

lemma nobleToHex_no_prefix:
  "\<not> startsWith (nobleToHex bs) ''0x'' \<and> \<not> startsWith (nobleToHex bs) ''0X''"
proof (cases bs)
  case Nil
  then show ?thesis by (simp add: nobleToHex_def startsWith_two)
next
  case (Cons b rest)
  have "unat b mod 16 < 16" by simp
  from hexDigit_not_x [OF this] show ?thesis
    using Cons by (simp add: nobleToHex_def startsWith_two)
qed

lemma hexToBytes_nobleToHex: "hexToBytes (nobleToHex bs) = Inr bs"
  using nobleToHex_no_prefix [of bs]
  by (simp add: hexToBytes_def nobleFromHex_nobleToHex)

lemma hexToBytes_prefixed:
  "hexToBytes (''0x'' @ s) = nobleFromHex s" "hexToBytes (''0X'' @ s) = nobleFromHex s"
  by (simp_all add: hexToBytes_def startsWith_two)

lemma bytesToHex_cases:
  "bytesToHex bs (Some False) = toUpperCase (nobleToHex bs)"
  "bytesToHex bs (Some True) = ''0x'' @ toUpperCase (nobleToHex bs)"
  "bytesToHex bs None = ''0x'' @ toUpperCase (nobleToHex bs)"
  by (simp_all add: bytesToHex_def)

lemma hexToBytes_bytesToHex: "hexToBytes (bytesToHex bs (Some False)) = Inr bs"
  by (simp add: bytesToHex_cases hexToBytes_upper hexToBytes_nobleToHex)

lemma length_bytesToHex: "length (bytesToHex bs (Some False)) = 2 * length bs"
  by (simp add: bytesToHex_cases toUpperCase_def length_nobleToHex)

lemma set_bytesToHex: "set (bytesToHex bs (Some False)) \<subseteq> set ''0123456789ABCDEF''"
  unfolding bytesToHex_cases by (rule set_upper_nobleToHex)

lemma hexToBytes_mixed_case: "hexToBytes ''0xaBcD'' = Inr [0xAB, 0xCD]"
  by code_simp

lemma upper_no_0x: "\<not> startsWith (toUpperCase s) ''0x''"
  by (cases s rule: nobleFromHex_loop.cases)
     (simp_all add: startsWith_two toUpperCase_def toUpperChar_x)

text \<open>
  C7. Decoding the unprefixed rendering of any byte sequence gives the sequence back.
  \<^const>\<open>bytesToHex\<close> writes two characters per byte, all of them among
  \<open>0123456789ABCDEF\<close>; with the prefix argument true, or left out, the result is
  \<open>0x\<close> followed by the unprefixed rendering, and the unprefixed rendering never starts
  with \<open>0x\<close>. \<^const>\<open>hexToBytes\<close> gives the same result on a string and on its upper-case
  form, decodes lower-case digits, and accepts the prefixes \<open>0x\<close> and \<open>0X\<close>.
\<close>

theorem hex_roundtrip:
  "hexToBytes (bytesToHex b (Some False)) = Inr b
   \<and> set (bytesToHex b (Some False)) \<subseteq> set ''0123456789ABCDEF''
   \<and> length (bytesToHex b (Some False)) = 2 * length b
   \<and> bytesToHex b (Some True) = ''0x'' @ bytesToHex b (Some False)
   \<and> bytesToHex b None = bytesToHex b (Some True)
   \<and> \<not> startsWith (bytesToHex b (Some False)) ''0x''
   \<and> hexToBytes (toUpperCase s) = hexToBytes s
   \<and> hexToBytes (nobleToHex b) = Inr b
   \<and> hexToBytes (''0x'' @ nobleToHex b) = Inr b
   \<and> hexToBytes (''0X'' @ nobleToHex b) = Inr b
   \<and> hexToBytes (bytesToHex b None) = Inr b
   \<and> hexToBytes ''0xaBcD'' = Inr [0xAB, 0xCD]"
proof (intro conjI)
  show "hexToBytes (bytesToHex b (Some False)) = Inr b"
    by (rule hexToBytes_bytesToHex)
  show "set (bytesToHex b (Some False)) \<subseteq> set ''0123456789ABCDEF''"
    by (rule set_bytesToHex)
  show "length (bytesToHex b (Some False)) = 2 * length b"
    by (rule length_bytesToHex)
  show "bytesToHex b (Some True) = ''0x'' @ bytesToHex b (Some False)"
    by (simp only: bytesToHex_cases)
  show "bytesToHex b None = bytesToHex b (Some True)"
    by (simp only: bytesToHex_cases)
  show "\<not> startsWith (bytesToHex b (Some False)) ''0x''"
    unfolding bytesToHex_cases by (rule upper_no_0x)
  show "hexToBytes (toUpperCase s) = hexToBytes s"
    by (rule hexToBytes_upper)
  show "hexToBytes (nobleToHex b) = Inr b"
    by (rule hexToBytes_nobleToHex)
  show "hexToBytes (''0x'' @ nobleToHex b) = Inr b"
    by (simp only: hexToBytes_prefixed nobleFromHex_nobleToHex)
  show "hexToBytes (''0X'' @ nobleToHex b) = Inr b"
    by (simp only: hexToBytes_prefixed nobleFromHex_nobleToHex)
  show "hexToBytes (bytesToHex b None) = Inr b"
    by (simp only: bytesToHex_cases hexToBytes_prefixed nobleFromHex_upper nobleFromHex_nobleToHex)
  show "hexToBytes ''0xaBcD'' = Inr [0xAB, 0xCD]"
    by (rule hexToBytes_mixed_case)
qed

section \<open>Checksum\<close>

lemma checksum_payload:
  "calculateChecksum keccak256 a =
     bytesToHex (take 4 (keccak256
       (uint16_be (chainType a) @ [word_of_nat (length (chainReference a))] @ chainReference a
        @ [word_of_nat (length (address a))] @ address a))) (Some False)"
  by (simp add: calculateChecksum_def concatBytes_def numberToBytes_1 numberToBytes_2)

text \<open>
  C2. With a hash that returns 32 bytes, the checksum of an address is the upper-case
  hex rendering, without prefix, of the first 4 bytes of the hash of: the chain type as
  two big-endian bytes, the length byte and bytes of the chain reference, the length
  byte and bytes of the address. This input is the binary encoding without its first two
  (version) bytes. The checksum has 8 characters among \<open>0123456789ABCDEF\<close> and decodes
  to those 4 bytes. Two addresses with the same chain type, chain reference and address
  have the same checksum, whatever their versions.
\<close>

theorem calculateChecksum_spec:
  assumes "\<forall>x. length (keccak256 x) = 32"
  shows "calculateChecksum keccak256 a =
       bytesToHex (take 4 (keccak256
         (uint16_be (chainType a) @ [word_of_nat (length (chainReference a))] @ chainReference a
          @ [word_of_nat (length (address a))] @ address a))) (Some False)
     \<and> hexToBytes (calculateChecksum keccak256 a) =
         Inr (take 4 (keccak256 (drop 2 (encodeInteroperableAddress a))))
     \<and> length (calculateChecksum keccak256 a) = 8
     \<and> set (calculateChecksum keccak256 a) \<subseteq> set ''0123456789ABCDEF''
     \<and> \<not> startsWith (calculateChecksum keccak256 a) ''0x''
     \<and> (chainType a' = chainType a \<and> chainReference a' = chainReference a
          \<and> address a' = address a
          \<longrightarrow> calculateChecksum keccak256 a' = calculateChecksum keccak256 a)"
proof -
  let ?payload = "uint16_be (chainType a) @ [word_of_nat (length (chainReference a))]
                  @ chainReference a @ [word_of_nat (length (address a))] @ address a"
  have drop2: "drop 2 (encodeInteroperableAddress a) = ?payload"
    by (simp add: encode_layout uint16_be_def)
  have len4: "length (take 4 (keccak256 ?payload)) = 4"
    using assms(1) by simp
  have "hexToBytes (calculateChecksum keccak256 a) = Inr (take 4 (keccak256 (drop 2 (encodeInteroperableAddress a))))"
    unfolding drop2 checksum_payload by (rule hexToBytes_bytesToHex)
  moreover have "length (calculateChecksum keccak256 a) = 8"
    unfolding checksum_payload length_bytesToHex len4 by simp
  moreover have "set (calculateChecksum keccak256 a) \<subseteq> set ''0123456789ABCDEF''"
    unfolding checksum_payload by (rule set_bytesToHex)
  moreover have "\<not> startsWith (calculateChecksum keccak256 a) ''0x''"
    unfolding checksum_payload bytesToHex_cases by (rule upper_no_0x)
  moreover have "calculateChecksum keccak256 a' = calculateChecksum keccak256 a"
    if "chainType a' = chainType a \<and> chainReference a' = chainReference a \<and> address a' = address a"
    using that by (simp add: checksum_payload)
  ultimately show ?thesis
    using checksum_payload [of keccak256 a] by blast
qed

theorem calculateChecksum_spec_witness:
  "(\<forall>x. length (take 32 (x @ replicate 32 (0::byte))) = 32)
   \<and> calculateChecksum (\<lambda>x. take 32 (x @ replicate 32 0))
        \<lparr>version = 1, chainType = 0, chainReference = [1], address = [0xD8, 0xDA]\<rparr>
       = ''00000101''
   \<and> length (calculateChecksum (\<lambda>x. take 32 (x @ replicate 32 0))
        \<lparr>version = 1, chainType = 0, chainReference = [1], address = [0xD8, 0xDA]\<rparr>) = 8
   \<and> calculateChecksum (\<lambda>x. take 32 (x @ replicate 32 0))
        \<lparr>version = 2, chainType = 0, chainReference = [1], address = [0xD8, 0xDA]\<rparr>
       = calculateChecksum (\<lambda>x. take 32 (x @ replicate 32 0))
        \<lparr>version = 1, chainType = 0, chainReference = [1], address = [0xD8, 0xDA]\<rparr>"
proof -
  let ?H = "\<lambda>x :: byte list. take 32 (x @ replicate 32 (0::byte))"
  let ?a = "\<lparr>version = 1, chainType = 0, chainReference = [1], address = [0xD8, 0xDA]\<rparr>"
  let ?a' = "\<lparr>version = 2, chainType = 0, chainReference = [1], address = [0xD8, 0xDA]\<rparr>"
  have h: "\<forall>x. length (?H x) = 32" by auto
  note t = calculateChecksum_spec [of ?H ?a ?a', OF h]
  have e: "bytesToHex (take 4 (?H (uint16_be 0 @ [word_of_nat (length [1::byte])] @ [1]
             @ [word_of_nat (length [0xD8, 0xDA :: byte])] @ [0xD8, 0xDA]))) (Some False)
           = ''00000101''"
    by code_simp
  from t have "calculateChecksum ?H ?a = ''00000101''"
    using e by simp
  moreover from t have "length (calculateChecksum ?H ?a) = 8"
    by blast
  moreover from t have "calculateChecksum ?H ?a' = calculateChecksum ?H ?a"
    by simp
  ultimately show ?thesis using h by blast
qed

section \<open>The address builder\<close>

lemma create_decode_error:
  "norm_address (params_address p) = Inl e \<Longrightarrow> createInteroperableAddress p = Inl e"
  by (cases "params_address p" rule: norm_address.cases)
     (simp_all add: createInteroperableAddress_def Let_def)

lemma create_chainReference:
  "(case params_chainReference p of None \<Rightarrow> [] | Some (RefNumber n) \<Rightarrow> numberToMinBytes n
     | Some (RefBytes b) \<Rightarrow> b) = norm_chainReference (params_chainReference p)"
  by (cases "params_chainReference p" rule: norm_chainReference.cases) simp_all

lemma create_address:
  "(case params_address p of None \<Rightarrow> Inr [] | Some (AddrString s) \<Rightarrow> hexToBytes s
     | Some (AddrBytes b) \<Rightarrow> Inr b) = norm_address (params_address p)"
  by (cases "params_address p" rule: norm_address.cases) simp_all

lemma create_checks:
  assumes "norm_address (params_address p) = Inr ad"
  shows "createInteroperableAddress p =
     (case first_failing_check (norm_chainReference (params_chainReference p)) ad (params_chainType p) of
        Some k \<Rightarrow> Inl (Error (validation_message k))
      | None \<Rightarrow> Inr \<lparr>version = 1, chainType = params_chainType p,
                     chainReference = norm_chainReference (params_chainReference p),
                     address = ad\<rparr>)"
  unfolding createInteroperableAddress_def create_chainReference create_address assms
  by (simp add: Let_def first_failing_check_def validation_message_def VERSION_1_def)

lemma first_failing_check_None:
  "first_failing_check cr ad ct = None \<longleftrightarrow>
     \<not> ((cr = [] \<and> ad = []) \<or> 255 < length cr \<or> 255 < length ad \<or> ct < 0 \<or> 65535 < ct)"
  by (auto simp: first_failing_check_def)

lemma create_fails_iff:
  assumes "norm_address (params_address p) = Inr ad"
  shows "(\<exists>e. createInteroperableAddress p = Inl e) \<longleftrightarrow>
     first_failing_check (norm_chainReference (params_chainReference p)) ad (params_chainType p) \<noteq> None"
  unfolding create_checks [OF assms] by (auto split: option.splits)

lemma create_succeeds_iff:
  assumes "norm_address (params_address p) = Inr ad"
  shows "(\<exists>a. createInteroperableAddress p = Inr a) \<longleftrightarrow>
     first_failing_check (norm_chainReference (params_chainReference p)) ad (params_chainType p) = None"
  unfolding create_checks [OF assms] by (auto split: option.splits)

lemma create_validation:
  assumes "norm_address (params_address p) = Inr ad"
    and "cr = norm_chainReference (params_chainReference p)"
    and "ct = params_chainType p"
  shows "((\<exists>e. createInteroperableAddress p = Inl e) \<longleftrightarrow>
            (cr = [] \<and> ad = []) \<or> 255 < length cr \<or> 255 < length ad \<or> ct < 0 \<or> 65535 < ct)
     \<and> createInteroperableAddress p =
         (case first_failing_check cr ad ct of
            Some k \<Rightarrow> Inl (Error (validation_message k))
          | None \<Rightarrow> Inr \<lparr>version = 1, chainType = ct, chainReference = cr, address = ad\<rparr>)
     \<and> (length cr = 255 \<and> length ad \<le> 255 \<and> 0 \<le> ct \<and> ct \<le> 65535
          \<longrightarrow> (\<exists>a. createInteroperableAddress p = Inr a))
     \<and> (length cr = 256 \<longrightarrow> (\<exists>e. createInteroperableAddress p = Inl e))
     \<and> (length ad = 255 \<and> length cr \<le> 255 \<and> 0 \<le> ct \<and> ct \<le> 65535
          \<longrightarrow> (\<exists>a. createInteroperableAddress p = Inr a))
     \<and> (length ad = 256 \<longrightarrow> (\<exists>e. createInteroperableAddress p = Inl e))
     \<and> (ct = - 1 \<or> ct = 65536 \<longrightarrow> (\<exists>e. createInteroperableAddress p = Inl e))
     \<and> ((ct = 0 \<or> ct = 65535) \<and> (cr \<noteq> [] \<or> ad \<noteq> []) \<and> length cr \<le> 255 \<and> length ad \<le> 255
          \<longrightarrow> (\<exists>a. createInteroperableAddress p = Inr a))"
proof -
  note f = create_fails_iff [OF assms(1), folded assms(2) assms(3)]
  note g = create_succeeds_iff [OF assms(1), folded assms(2) assms(3)]
  have fails: "(\<exists>e. createInteroperableAddress p = Inl e) \<longleftrightarrow>
            (cr = [] \<and> ad = []) \<or> 255 < length cr \<or> 255 < length ad \<or> ct < 0 \<or> 65535 < ct"
    unfolding f first_failing_check_None by simp
  have succeeds: "(\<exists>a. createInteroperableAddress p = Inr a) \<longleftrightarrow>
            \<not> ((cr = [] \<and> ad = []) \<or> 255 < length cr \<or> 255 < length ad \<or> ct < 0 \<or> 65535 < ct)"
    unfolding g first_failing_check_None by simp
  have eq: "createInteroperableAddress p =
         (case first_failing_check cr ad ct of
            Some k \<Rightarrow> Inl (Error (validation_message k))
          | None \<Rightarrow> Inr \<lparr>version = 1, chainType = ct, chainReference = cr, address = ad\<rparr>)"
    unfolding assms(2) assms(3) by (rule create_checks [OF assms(1)])
  have b1: "length cr = 255 \<and> length ad \<le> 255 \<and> 0 \<le> ct \<and> ct \<le> 65535
          \<longrightarrow> (\<exists>a. createInteroperableAddress p = Inr a)"
    unfolding succeeds by auto
  have b2: "length cr = 256 \<longrightarrow> (\<exists>e. createInteroperableAddress p = Inl e)"
    unfolding fails by auto
  have b3: "length ad = 255 \<and> length cr \<le> 255 \<and> 0 \<le> ct \<and> ct \<le> 65535
          \<longrightarrow> (\<exists>a. createInteroperableAddress p = Inr a)"
    unfolding succeeds by auto
  have b4: "length ad = 256 \<longrightarrow> (\<exists>e. createInteroperableAddress p = Inl e)"
    unfolding fails by auto
  have b5: "ct = - 1 \<or> ct = 65536 \<longrightarrow> (\<exists>e. createInteroperableAddress p = Inl e)"
    unfolding fails by auto
  have b6: "(ct = 0 \<or> ct = 65535) \<and> (cr \<noteq> [] \<or> ad \<noteq> []) \<and> length cr \<le> 255 \<and> length ad \<le> 255
          \<longrightarrow> (\<exists>a. createInteroperableAddress p = Inr a)"
    unfolding succeeds by auto
  from fails eq b1 b2 b3 b4 b5 b6 show ?thesis by (intro conjI)
qed

lemma norm_address_fails_iff:
  "(\<exists>e. norm_address a = Inl e) \<longleftrightarrow>
     (\<exists>s. a = Some (AddrString s) \<and> (\<exists>e. hexToBytes s = Inl e))"
  by (cases a rule: norm_address.cases) simp_all

lemma hexToBytes_zz: "hexToBytes ''zz'' = Inl HexDecodeError"
  by code_simp

text \<open>
  C3, as amended. The builder fails if and only if normalisation fails (the address is
  a string that \<^const>\<open>hexToBytes\<close> rejects; its error is thrown before any check) or,
  after normalisation, both fields are empty, or the chain reference is longer than 255
  bytes, or the address is longer than 255 bytes, or the chain type is below 0 or above
  65535. When normalisation succeeds the error is the one of the first of these four
  checks that fails, in this order; a field of exactly 255 bytes passes and one of 256
  bytes fails; the chain types -1 and 65536 fail, 0 and 65535 pass.
\<close>

theorem createInteroperableAddress_fails_iff:
  "(let cr = norm_chainReference (params_chainReference p); ct = params_chainType p in
    ((\<exists>e. createInteroperableAddress p = Inl e) \<longleftrightarrow>
        (\<exists>e. norm_address (params_address p) = Inl e)
        \<or> (\<exists>ad. norm_address (params_address p) = Inr ad
              \<and> ((cr = [] \<and> ad = []) \<or> 255 < length cr \<or> 255 < length ad
                   \<or> ct < 0 \<or> 65535 < ct)))
    \<and> ((\<exists>e. norm_address (params_address p) = Inl e) \<longleftrightarrow>
          (\<exists>s. params_address p = Some (AddrString s) \<and> (\<exists>e. hexToBytes s = Inl e)))
    \<and> (\<forall>e. norm_address (params_address p) = Inl e \<longrightarrow> createInteroperableAddress p = Inl e)
    \<and> (\<forall>ad. norm_address (params_address p) = Inr ad \<longrightarrow>
          createInteroperableAddress p =
            (case first_failing_check cr ad ct of
               Some k \<Rightarrow> Inl (Error (validation_message k))
             | None \<Rightarrow> Inr \<lparr>version = 1, chainType = ct, chainReference = cr, address = ad\<rparr>)
          \<and> (length cr = 255 \<and> length ad \<le> 255 \<and> 0 \<le> ct \<and> ct \<le> 65535
               \<longrightarrow> (\<exists>a. createInteroperableAddress p = Inr a))
          \<and> (length cr = 256 \<longrightarrow> (\<exists>e. createInteroperableAddress p = Inl e))
          \<and> (length ad = 255 \<and> length cr \<le> 255 \<and> 0 \<le> ct \<and> ct \<le> 65535
               \<longrightarrow> (\<exists>a. createInteroperableAddress p = Inr a))
          \<and> (length ad = 256 \<longrightarrow> (\<exists>e. createInteroperableAddress p = Inl e))
          \<and> (ct = - 1 \<or> ct = 65536 \<longrightarrow> (\<exists>e. createInteroperableAddress p = Inl e))
          \<and> ((ct = 0 \<or> ct = 65535) \<and> (cr \<noteq> [] \<or> ad \<noteq> [])
                 \<and> length cr \<le> 255 \<and> length ad \<le> 255
               \<longrightarrow> (\<exists>a. createInteroperableAddress p = Inr a))))"
proof -
  define cr where "cr = norm_chainReference (params_chainReference p)"
  define ct where "ct = params_chainType p"
  let ?conds = "\<lambda>ad. (cr = [] \<and> ad = []) \<or> 255 < length cr \<or> 255 < length ad
                   \<or> ct < 0 \<or> 65535 < ct"
  have dec: "createInteroperableAddress p = Inl e" if "norm_address (params_address p) = Inl e" for e
    by (rule create_decode_error [OF that])
  have val: "((\<exists>e. createInteroperableAddress p = Inl e) \<longleftrightarrow> ?conds ad)
     \<and> createInteroperableAddress p =
         (case first_failing_check cr ad ct of
            Some k \<Rightarrow> Inl (Error (validation_message k))
          | None \<Rightarrow> Inr \<lparr>version = 1, chainType = ct, chainReference = cr, address = ad\<rparr>)
     \<and> (length cr = 255 \<and> length ad \<le> 255 \<and> 0 \<le> ct \<and> ct \<le> 65535
          \<longrightarrow> (\<exists>a. createInteroperableAddress p = Inr a))
     \<and> (length cr = 256 \<longrightarrow> (\<exists>e. createInteroperableAddress p = Inl e))
     \<and> (length ad = 255 \<and> length cr \<le> 255 \<and> 0 \<le> ct \<and> ct \<le> 65535
          \<longrightarrow> (\<exists>a. createInteroperableAddress p = Inr a))
     \<and> (length ad = 256 \<longrightarrow> (\<exists>e. createInteroperableAddress p = Inl e))
     \<and> (ct = - 1 \<or> ct = 65536 \<longrightarrow> (\<exists>e. createInteroperableAddress p = Inl e))
     \<and> ((ct = 0 \<or> ct = 65535) \<and> (cr \<noteq> [] \<or> ad \<noteq> []) \<and> length cr \<le> 255 \<and> length ad \<le> 255
          \<longrightarrow> (\<exists>a. createInteroperableAddress p = Inr a))"
    if "norm_address (params_address p) = Inr ad" for ad
    by (rule create_validation [OF that cr_def ct_def])
  have iff: "(\<exists>e. createInteroperableAddress p = Inl e) \<longleftrightarrow>
        (\<exists>e. norm_address (params_address p) = Inl e)
        \<or> (\<exists>ad. norm_address (params_address p) = Inr ad \<and> ?conds ad)"
  proof (cases "norm_address (params_address p)")
    case (Inl e)
    with dec [OF Inl] show ?thesis by auto
  next
    case (Inr ad)
    from val [OF Inr] have "(\<exists>e. createInteroperableAddress p = Inl e) \<longleftrightarrow> ?conds ad"
      by (rule conjunct1)
    with Inr show ?thesis by simp
  qed
  have rest: "\<forall>ad. norm_address (params_address p) = Inr ad \<longrightarrow>
          createInteroperableAddress p =
            (case first_failing_check cr ad ct of
               Some k \<Rightarrow> Inl (Error (validation_message k))
             | None \<Rightarrow> Inr \<lparr>version = 1, chainType = ct, chainReference = cr, address = ad\<rparr>)
          \<and> (length cr = 255 \<and> length ad \<le> 255 \<and> 0 \<le> ct \<and> ct \<le> 65535
               \<longrightarrow> (\<exists>a. createInteroperableAddress p = Inr a))
          \<and> (length cr = 256 \<longrightarrow> (\<exists>e. createInteroperableAddress p = Inl e))
          \<and> (length ad = 255 \<and> length cr \<le> 255 \<and> 0 \<le> ct \<and> ct \<le> 65535
               \<longrightarrow> (\<exists>a. createInteroperableAddress p = Inr a))
          \<and> (length ad = 256 \<longrightarrow> (\<exists>e. createInteroperableAddress p = Inl e))
          \<and> (ct = - 1 \<or> ct = 65536 \<longrightarrow> (\<exists>e. createInteroperableAddress p = Inl e))
          \<and> ((ct = 0 \<or> ct = 65535) \<and> (cr \<noteq> [] \<or> ad \<noteq> [])
                 \<and> length cr \<le> 255 \<and> length ad \<le> 255
               \<longrightarrow> (\<exists>a. createInteroperableAddress p = Inr a))"
  proof (intro allI impI)
    fix ad assume "norm_address (params_address p) = Inr ad"
    from val [OF this] show "createInteroperableAddress p =
            (case first_failing_check cr ad ct of
               Some k \<Rightarrow> Inl (Error (validation_message k))
             | None \<Rightarrow> Inr \<lparr>version = 1, chainType = ct, chainReference = cr, address = ad\<rparr>)
          \<and> (length cr = 255 \<and> length ad \<le> 255 \<and> 0 \<le> ct \<and> ct \<le> 65535
               \<longrightarrow> (\<exists>a. createInteroperableAddress p = Inr a))
          \<and> (length cr = 256 \<longrightarrow> (\<exists>e. createInteroperableAddress p = Inl e))
          \<and> (length ad = 255 \<and> length cr \<le> 255 \<and> 0 \<le> ct \<and> ct \<le> 65535
               \<longrightarrow> (\<exists>a. createInteroperableAddress p = Inr a))
          \<and> (length ad = 256 \<longrightarrow> (\<exists>e. createInteroperableAddress p = Inl e))
          \<and> (ct = - 1 \<or> ct = 65536 \<longrightarrow> (\<exists>e. createInteroperableAddress p = Inl e))
          \<and> ((ct = 0 \<or> ct = 65535) \<and> (cr \<noteq> [] \<or> ad \<noteq> [])
                 \<and> length cr \<le> 255 \<and> length ad \<le> 255
               \<longrightarrow> (\<exists>a. createInteroperableAddress p = Inr a))"
      by (rule conjunct2)
  qed
  have "\<forall>e. norm_address (params_address p) = Inl e \<longrightarrow> createInteroperableAddress p = Inl e"
    using dec by blast
  with iff rest norm_address_fails_iff [of "params_address p"]
  show ?thesis
    unfolding Let_def cr_def [symmetric] ct_def [symmetric] by (intro conjI)
qed

theorem createInteroperableAddress_fails_iff_witness:
  "(\<exists>a. createInteroperableAddress
         \<lparr>params_chainType = 0, params_chainReference = Some (RefBytes (replicate 255 0)),
          params_address = None\<rparr> = Inr a)
   \<and> (\<exists>e. createInteroperableAddress
         \<lparr>params_chainType = 0, params_chainReference = Some (RefBytes (replicate 256 0)),
          params_address = None\<rparr> = Inl e)
   \<and> (\<exists>e. createInteroperableAddress
         \<lparr>params_chainType = - 1, params_chainReference = None,
          params_address = Some (AddrBytes [1])\<rparr> = Inl e)
   \<and> (\<exists>a. createInteroperableAddress
         \<lparr>params_chainType = 65535, params_chainReference = None,
          params_address = Some (AddrBytes [1])\<rparr> = Inr a)
   \<and> (\<exists>a. createInteroperableAddress
         \<lparr>params_chainType = 0, params_chainReference = None,
          params_address = Some (AddrBytes (replicate 255 0))\<rparr> = Inr a)
   \<and> (\<exists>e. createInteroperableAddress
         \<lparr>params_chainType = 0, params_chainReference = None,
          params_address = Some (AddrBytes (replicate 256 0))\<rparr> = Inl e)
   \<and> createInteroperableAddress
         \<lparr>params_chainType = 0, params_chainReference = None, params_address = None\<rparr>
       = Inl (Error (validation_message 1))
   \<and> createInteroperableAddress
         \<lparr>params_chainType = 0, params_chainReference = Some (RefBytes [1]),
          params_address = Some (AddrString ''zz'')\<rparr>
       = Inl HexDecodeError"
proof -
  let ?pA = "\<lparr>params_chainType = 0, params_chainReference = Some (RefBytes (replicate 255 0)),
               params_address = None\<rparr>"
  let ?pB = "\<lparr>params_chainType = 0, params_chainReference = Some (RefBytes (replicate 256 0)),
               params_address = None\<rparr>"
  let ?pC = "\<lparr>params_chainType = - 1, params_chainReference = None,
               params_address = Some (AddrBytes [1])\<rparr>"
  let ?pD = "\<lparr>params_chainType = 65535, params_chainReference = None,
               params_address = Some (AddrBytes [1])\<rparr>"
  let ?pE = "\<lparr>params_chainType = 0, params_chainReference = None, params_address = None\<rparr>"
  let ?pF = "\<lparr>params_chainType = 0, params_chainReference = None,
               params_address = Some (AddrBytes (replicate 255 0))\<rparr>"
  let ?pG = "\<lparr>params_chainType = 0, params_chainReference = None,
               params_address = Some (AddrBytes (replicate 256 0))\<rparr>"
  let ?pZ = "\<lparr>params_chainType = 0, params_chainReference = Some (RefBytes [1]),
               params_address = Some (AddrString ''zz'')\<rparr>"
  have a: "\<exists>a. createInteroperableAddress ?pA = Inr a"
    using createInteroperableAddress_fails_iff [of ?pA]
    by (auto simp: Let_def first_failing_check_def)
  have b: "\<exists>e. createInteroperableAddress ?pB = Inl e"
    using createInteroperableAddress_fails_iff [of ?pB]
    by (auto simp: Let_def first_failing_check_def)
  have c: "\<exists>e. createInteroperableAddress ?pC = Inl e"
    using createInteroperableAddress_fails_iff [of ?pC]
    by (auto simp: Let_def first_failing_check_def)
  have d: "\<exists>a. createInteroperableAddress ?pD = Inr a"
    using createInteroperableAddress_fails_iff [of ?pD]
    by (auto simp: Let_def first_failing_check_def)
  have f: "\<exists>a. createInteroperableAddress ?pF = Inr a"
    using createInteroperableAddress_fails_iff [of ?pF]
    by (auto simp: Let_def first_failing_check_def)
  have g: "\<exists>e. createInteroperableAddress ?pG = Inl e"
    using createInteroperableAddress_fails_iff [of ?pG]
    by (auto simp: Let_def first_failing_check_def)
  have e: "createInteroperableAddress ?pE = Inl (Error (validation_message 1))"
    using createInteroperableAddress_fails_iff [of ?pE]
    by (simp add: Let_def first_failing_check_def)
  have z: "createInteroperableAddress ?pZ = Inl HexDecodeError"
    using createInteroperableAddress_fails_iff [of ?pZ]
    by (simp add: Let_def hexToBytes_zz)
  from a b c d f g e z show ?thesis by (intro conjI)
qed

text \<open>
  C3 as the spec states it fails: with the chain reference \<open>[1]\<close>, the chain type 0 and
  the address string \<open>zz\<close> the builder fails although none of the four conditions holds,
  and with the chain type -1 and the same address the error is the decoder's, not the
  one of the fourth check.
\<close>

theorem createInteroperableAddress_fails_iff_counterexample:
  "createInteroperableAddress
       \<lparr>params_chainType = 0, params_chainReference = Some (RefBytes [1]),
        params_address = Some (AddrString ''zz'')\<rparr>
     = Inl HexDecodeError
   \<and> norm_address (params_address
       \<lparr>params_chainType = 0, params_chainReference = Some (RefBytes [1]),
        params_address = Some (AddrString ''zz'')\<rparr>) = Inl HexDecodeError
   \<and> norm_chainReference (params_chainReference
       \<lparr>params_chainType = 0, params_chainReference = Some (RefBytes [1]),
        params_address = Some (AddrString ''zz'')\<rparr>) = [1]
   \<and> params_chainType
       \<lparr>params_chainType = 0, params_chainReference = Some (RefBytes [1]),
        params_address = Some (AddrString ''zz'')\<rparr> = 0
   \<and> createInteroperableAddress
       \<lparr>params_chainType = - 1, params_chainReference = None,
        params_address = Some (AddrString ''zz'')\<rparr>
     = Inl HexDecodeError
   \<and> createInteroperableAddress
       \<lparr>params_chainType = - 1, params_chainReference = None,
        params_address = Some (AddrString ''zz'')\<rparr>
     \<noteq> Inl (Error ''Chain type must be a 2-byte value (0-65535)'')"
proof -
  have z1: "createInteroperableAddress
       \<lparr>params_chainType = 0, params_chainReference = Some (RefBytes [1]),
        params_address = Some (AddrString ''zz'')\<rparr> = Inl HexDecodeError"
    by (rule create_decode_error) (simp add: hexToBytes_zz)
  have z2: "createInteroperableAddress
       \<lparr>params_chainType = - 1, params_chainReference = None,
        params_address = Some (AddrString ''zz'')\<rparr> = Inl HexDecodeError"
    by (rule create_decode_error) (simp add: hexToBytes_zz)
  show ?thesis unfolding z1 z2 by (simp add: hexToBytes_zz)
qed

text \<open>
  C4. When the builder succeeds, the address it returns has version 1, the chain type
  of the parameters, the normalised chain reference (absent: empty; a number: its
  minimal bytes; bytes: unchanged) and the normalised address (absent: empty; a string:
  its hex decoding; bytes: unchanged). The builder is a function of its parameters alone.
\<close>

theorem createInteroperableAddress_result:
  assumes "createInteroperableAddress p = Inr a"
  shows "version a = 1
     \<and> chainType a = params_chainType p
     \<and> chainReference a = norm_chainReference (params_chainReference p)
     \<and> norm_address (params_address p) = Inr (address a)
     \<and> (params_chainReference p = None \<longrightarrow> chainReference a = [])
     \<and> (\<forall>n. params_chainReference p = Some (RefNumber n) \<longrightarrow> chainReference a = numberToMinBytes n)
     \<and> (\<forall>b. params_chainReference p = Some (RefBytes b) \<longrightarrow> chainReference a = b)
     \<and> (params_address p = None \<longrightarrow> address a = [])
     \<and> (\<forall>s. params_address p = Some (AddrString s) \<longrightarrow> hexToBytes s = Inr (address a))
     \<and> (\<forall>b. params_address p = Some (AddrBytes b) \<longrightarrow> address a = b)"
proof (cases "norm_address (params_address p)")
  case (Inl e)
  from create_decode_error [OF this] assms show ?thesis by simp
next
  case (Inr ad)
  from assms have a_def: "a = \<lparr>version = 1, chainType = params_chainType p,
        chainReference = norm_chainReference (params_chainReference p), address = ad\<rparr>"
    unfolding create_checks [OF Inr] by (simp split: option.splits)
  have main: "version a = 1 \<and> chainType a = params_chainType p
     \<and> chainReference a = norm_chainReference (params_chainReference p)
     \<and> norm_address (params_address p) = Inr (address a)"
    using Inr by (simp add: a_def)
  then show ?thesis by auto
qed

lemma hexToBytes_d8da: "hexToBytes ''0xd8dA'' = Inr [0xD8, 0xDA]"
  by code_simp

theorem createInteroperableAddress_result_witness:
  "createInteroperableAddress
     \<lparr>params_chainType = 0, params_chainReference = Some (RefNumber 42161),
      params_address = Some (AddrString ''0xd8dA'')\<rparr>
     = Inr \<lparr>version = 1, chainType = 0, chainReference = [0xA4, 0xB1], address = [0xD8, 0xDA]\<rparr>
   \<and> version \<lparr>version = 1, chainType = 0, chainReference = [0xA4, 0xB1], address = [0xD8, 0xDA]\<rparr> = 1
   \<and> [0xA4, 0xB1] = numberToMinBytes 42161
   \<and> hexToBytes ''0xd8dA'' = Inr [0xD8, 0xDA]"
proof -
  let ?p = "\<lparr>params_chainType = 0, params_chainReference = Some (RefNumber 42161),
              params_address = Some (AddrString ''0xd8dA'')\<rparr>"
  let ?a = "\<lparr>version = 1, chainType = 0, chainReference = [0xA4, 0xB1],
              address = [0xD8, 0xDA]\<rparr>"
  have n: "norm_address (params_address ?p) = Inr [0xD8, 0xDA]"
    by (simp add: hexToBytes_d8da)
  have h: "createInteroperableAddress ?p = Inr ?a"
    unfolding create_checks [OF n]
    by (simp add: first_failing_check_def numberToMinBytes_examples)
  from createInteroperableAddress_result [OF h] h show ?thesis by simp
qed

text \<open>
  C6, as amended. Each of the four validation failures throws a plain \<^verbatim>\<open>Error\<close> whose
  message is the text of encoder.ts: "At least one of chainReference or address must be
  provided", "Chain reference length cannot exceed 255 bytes", "Address length cannot
  exceed 255 bytes", "Chain type must be a 2-byte value (0-65535)"; once normalisation
  has succeeded the builder fails with no other error.
\<close>

theorem createInteroperableAddress_messages:
  assumes "norm_address (params_address p) = Inr ad"
    and "cr = norm_chainReference (params_chainReference p)"
    and "ct = params_chainType p"
  shows "(cr = [] \<and> ad = [] \<longrightarrow> createInteroperableAddress p =
            Inl (Error ''At least one of chainReference or address must be provided''))
     \<and> ((cr \<noteq> [] \<or> ad \<noteq> []) \<and> 255 < length cr \<longrightarrow> createInteroperableAddress p =
            Inl (Error ''Chain reference length cannot exceed 255 bytes''))
     \<and> ((cr \<noteq> [] \<or> ad \<noteq> []) \<and> length cr \<le> 255 \<and> 255 < length ad \<longrightarrow>
            createInteroperableAddress p = Inl (Error ''Address length cannot exceed 255 bytes''))
     \<and> ((cr \<noteq> [] \<or> ad \<noteq> []) \<and> length cr \<le> 255 \<and> length ad \<le> 255 \<and> (ct < 0 \<or> 65535 < ct) \<longrightarrow>
            createInteroperableAddress p = Inl (Error ''Chain type must be a 2-byte value (0-65535)''))
     \<and> (\<forall>e. createInteroperableAddress p = Inl e \<longrightarrow>
            e = Error ''At least one of chainReference or address must be provided''
          \<or> e = Error ''Chain reference length cannot exceed 255 bytes''
          \<or> e = Error ''Address length cannot exceed 255 bytes''
          \<or> e = Error ''Chain type must be a 2-byte value (0-65535)'')"
  unfolding create_checks [OF assms(1)] assms(2) [symmetric] assms(3) [symmetric]
  by (simp add: first_failing_check_def validation_message_def)

theorem createInteroperableAddress_messages_witness:
  "norm_address (params_address
       \<lparr>params_chainType = 0, params_chainReference = None, params_address = None\<rparr>) = Inr []
   \<and> createInteroperableAddress
       \<lparr>params_chainType = 0, params_chainReference = None, params_address = None\<rparr>
     = Inl (Error ''At least one of chainReference or address must be provided'')
   \<and> createInteroperableAddress
       \<lparr>params_chainType = 0, params_chainReference = Some (RefBytes (replicate 256 0)),
        params_address = None\<rparr>
     = Inl (Error ''Chain reference length cannot exceed 255 bytes'')
   \<and> createInteroperableAddress
       \<lparr>params_chainType = 0, params_chainReference = None,
        params_address = Some (AddrBytes (replicate 256 0))\<rparr>
     = Inl (Error ''Address length cannot exceed 255 bytes'')
   \<and> createInteroperableAddress
       \<lparr>params_chainType = 65536, params_chainReference = None,
        params_address = Some (AddrBytes [1])\<rparr>
     = Inl (Error ''Chain type must be a 2-byte value (0-65535)'')"
proof -
  let ?p1 = "\<lparr>params_chainType = 0, params_chainReference = None, params_address = None\<rparr>"
  let ?p2 = "\<lparr>params_chainType = 0, params_chainReference = Some (RefBytes (replicate 256 0)),
               params_address = None\<rparr>"
  let ?p3 = "\<lparr>params_chainType = 0, params_chainReference = None,
               params_address = Some (AddrBytes (replicate 256 0))\<rparr>"
  let ?p4 = "\<lparr>params_chainType = 65536, params_chainReference = None,
               params_address = Some (AddrBytes [1])\<rparr>"
  have n: "norm_address (params_address ?p1) = Inr []" by simp
  have m1: "createInteroperableAddress ?p1
      = Inl (Error ''At least one of chainReference or address must be provided'')"
    using createInteroperableAddress_messages [of ?p1 "[]" "[]" 0] by simp
  have m2: "createInteroperableAddress ?p2
      = Inl (Error ''Chain reference length cannot exceed 255 bytes'')"
    using createInteroperableAddress_messages [of ?p2 "[]" "replicate 256 0" 0] by simp
  have m3: "createInteroperableAddress ?p3
      = Inl (Error ''Address length cannot exceed 255 bytes'')"
    using createInteroperableAddress_messages [of ?p3 "replicate 256 0" "[]" 0] by simp
  have m4: "createInteroperableAddress ?p4
      = Inl (Error ''Chain type must be a 2-byte value (0-65535)'')"
    using createInteroperableAddress_messages [of ?p4 "[1]" "[]" 65536] by simp
  from n m1 m2 m3 m4 show ?thesis by (intro conjI)
qed

text \<open>
  C6 as the spec states it fails: each of the four failures carries the text of
  encoder.ts, which is not the spec's text.
\<close>

theorem createInteroperableAddress_messages_counterexample:
  "createInteroperableAddress
       \<lparr>params_chainType = 0, params_chainReference = None, params_address = None\<rparr>
     = Inl (Error ''At least one of chainReference or address must be provided'')
   \<and> createInteroperableAddress
       \<lparr>params_chainType = 0, params_chainReference = None, params_address = None\<rparr>
     \<noteq> Inl (Error ''at least one of chainReference or address must be provided'')
   \<and> createInteroperableAddress
       \<lparr>params_chainType = 0, params_chainReference = Some (RefBytes (replicate 256 0)),
        params_address = None\<rparr>
     = Inl (Error ''Chain reference length cannot exceed 255 bytes'')
   \<and> createInteroperableAddress
       \<lparr>params_chainType = 0, params_chainReference = Some (RefBytes (replicate 256 0)),
        params_address = None\<rparr>
     \<noteq> Inl (Error ''chain reference length exceeds 255 bytes'')
   \<and> createInteroperableAddress
       \<lparr>params_chainType = 0, params_chainReference = None,
        params_address = Some (AddrBytes (replicate 256 0))\<rparr>
     = Inl (Error ''Address length cannot exceed 255 bytes'')
   \<and> createInteroperableAddress
       \<lparr>params_chainType = 0, params_chainReference = None,
        params_address = Some (AddrBytes (replicate 256 0))\<rparr>
     \<noteq> Inl (Error ''address length exceeds 255 bytes'')
   \<and> createInteroperableAddress
       \<lparr>params_chainType = 65536, params_chainReference = None,
        params_address = Some (AddrBytes [1])\<rparr>
     = Inl (Error ''Chain type must be a 2-byte value (0-65535)'')
   \<and> createInteroperableAddress
       \<lparr>params_chainType = 65536, params_chainReference = None,
        params_address = Some (AddrBytes [1])\<rparr>
     \<noteq> Inl (Error ''chain type must fit in 2 bytes'')"
proof -
  have c1: "createInteroperableAddress
       \<lparr>params_chainType = 0, params_chainReference = None, params_address = None\<rparr>
     = Inl (Error ''At least one of chainReference or address must be provided'')"
    by (subst create_checks [of _ "[]"]) (simp_all add: first_failing_check_def validation_message_def)
  have c2: "createInteroperableAddress
       \<lparr>params_chainType = 0, params_chainReference = Some (RefBytes (replicate 256 0)),
        params_address = None\<rparr>
     = Inl (Error ''Chain reference length cannot exceed 255 bytes'')"
    by (subst create_checks [of _ "[]"]) (simp_all add: first_failing_check_def validation_message_def)
  have c3: "createInteroperableAddress
       \<lparr>params_chainType = 0, params_chainReference = None,
        params_address = Some (AddrBytes (replicate 256 0))\<rparr>
     = Inl (Error ''Address length cannot exceed 255 bytes'')"
    by (subst create_checks [of _ "replicate 256 0"])
       (simp_all add: first_failing_check_def validation_message_def)
  have c4: "createInteroperableAddress
       \<lparr>params_chainType = 65536, params_chainReference = None,
        params_address = Some (AddrBytes [1])\<rparr>
     = Inl (Error ''Chain type must be a 2-byte value (0-65535)'')"
    by (subst create_checks [of _ "[1]"]) (simp_all add: first_failing_check_def validation_message_def)
  show ?thesis unfolding c1 c2 c3 c4 by simp
qed

text \<open>
  C10. For every chain type, the number 0 as chain reference with no address fails with
  the error of the first check ("At least one of chainReference or address must be
  provided"), as leaving the chain reference out does: 0 is normalised to the empty
  sequence, not to one zero byte. A chain reference given as the byte 0x00 does pass.
\<close>

theorem createInteroperableAddress_zero_reference:
  "createInteroperableAddress
       \<lparr>params_chainType = ct, params_chainReference = Some (RefNumber 0), params_address = None\<rparr>
     = Inl (Error ''At least one of chainReference or address must be provided'')
   \<and> norm_chainReference (Some (RefNumber 0)) = []
   \<and> numberToMinBytes 0 \<noteq> [0]
   \<and> createInteroperableAddress
       \<lparr>params_chainType = ct, params_chainReference = Some (RefNumber 0), params_address = None\<rparr>
     = createInteroperableAddress
       \<lparr>params_chainType = ct, params_chainReference = None, params_address = None\<rparr>
   \<and> createInteroperableAddress
       \<lparr>params_chainType = 0, params_chainReference = Some (RefBytes [0]), params_address = None\<rparr>
     = Inr \<lparr>version = 1, chainType = 0, chainReference = [0], address = []\<rparr>"
proof -
  have z: "numberToMinBytes 0 = []" by (rule numberToMinBytes_examples)
  have a: "createInteroperableAddress
       \<lparr>params_chainType = ct, params_chainReference = Some (RefNumber 0), params_address = None\<rparr>
     = Inl (Error ''At least one of chainReference or address must be provided'')"
    by (subst create_checks [of _ "[]"])
       (simp_all add: first_failing_check_def validation_message_def z)
  have b: "createInteroperableAddress
       \<lparr>params_chainType = ct, params_chainReference = None, params_address = None\<rparr>
     = Inl (Error ''At least one of chainReference or address must be provided'')"
    by (subst create_checks [of _ "[]"])
       (simp_all add: first_failing_check_def validation_message_def)
  have c: "createInteroperableAddress
       \<lparr>params_chainType = 0, params_chainReference = Some (RefBytes [0]), params_address = None\<rparr>
     = Inr \<lparr>version = 1, chainType = 0, chainReference = [0], address = []\<rparr>"
    by (subst create_checks [of _ "[]"]) (simp_all add: first_failing_check_def)
  show ?thesis unfolding a b c by (simp add: z)
qed

end
